theory Spec2Isabelle
  imports Main "HOL-Library.Multiset" "HOL-Library.Char_ord" "HOL-Library.List_Lexorder"
begin

section \<open>Python primitives used by the code\<close>

text \<open>
  Line numbers, sizes and gaps are Python integers, hence \<open>int\<close>. Strings are
  \<open>string\<close>. \<open>str.lower\<close> belongs to the Python runtime and follows the Unicode case
  tables, so every function that calls it takes the lower-casing function as a
  parameter, and what is proved holds for any such function.
\<close>

text \<open>A slice bound of Python, for a sequence of length \<open>n\<close>: a negative bound counts
  from the end, and every bound is clipped to \<open>[0, n]\<close>.\<close>

definition py_bound :: "nat \<Rightarrow> int \<Rightarrow> nat" where
  "py_bound n i = (if i < 0 then nat (max 0 (int n + i)) else min n (nat i))"

text \<open>\<open>xs[i:j]\<close>.\<close>

definition py_slice :: "'a list \<Rightarrow> int \<Rightarrow> int \<Rightarrow> 'a list" where
  "py_slice xs i j =
     (let lo = py_bound (length xs) i; hi = py_bound (length xs) j
      in take (hi - lo) (drop lo xs))"

text \<open>Lower-casing of the ASCII letters, every other character left as it is. It agrees
  with \<open>str.lower\<close> on ASCII strings and is the lower-casing function of the example
  inputs below, whose names are ASCII.\<close>

definition upper_letters :: string where
  "upper_letters = ''ABCDEFGHIJKLMNOPQRSTUVWXYZ''"

definition lower_letters :: string where
  "lower_letters = ''abcdefghijklmnopqrstuvwxyz''"

definition lower_char :: "char \<Rightarrow> char" where
  "lower_char c = (case map_of (zip upper_letters lower_letters) c of Some l \<Rightarrow> l | None \<Rightarrow> c)"

definition lower :: "string \<Rightarrow> string" where
  "lower s = map lower_char s"

text \<open>\<open>s.startswith(p)\<close>.\<close>

definition startswith :: "string \<Rightarrow> string \<Rightarrow> bool" where
  "startswith s p = (take (length p) s = p)"

text \<open>\<open>sub in s\<close> on strings: \<open>sub\<close> occurs in \<open>s\<close> as a contiguous substring.\<close>

fun str_in :: "string \<Rightarrow> string \<Rightarrow> bool" where
  "str_in sub [] = (sub = [])"
| "str_in sub (c # cs) = (startswith (c # cs) sub \<or> str_in sub cs)"

text \<open>\<open>s.rstrip('0123456789')\<close>.\<close>

definition rstrip_digits :: "string \<Rightarrow> string" where
  "rstrip_digits s = rev (dropWhile (\<lambda>c. c \<in> set ''0123456789'') (rev s))"

text \<open>\<open>sep.join(xs)\<close>.\<close>

fun join :: "string \<Rightarrow> string list \<Rightarrow> string" where
  "join sep [] = []"
| "join sep [x] = x"
| "join sep (x # y # ys) = x @ sep @ join sep (y # ys)"

section \<open>The chunk record (typescript\_parser.py, TypeScriptChunk)\<close>

text \<open>
  The dataclass, field by field. \<open>imports\<close> is a keyword of the theory header, so the
  field is \<open>imports_list\<close>. \<open>metadata\<close> is the attribute that \<open>_merge_chunks\<close> adds to
  a merged chunk (\<open>merged_count\<close>, \<open>original_chunks\<close>); every other chunk has none.
\<close>

record chunk =
  content :: string
  chunk_type :: string
  name :: string
  start_line :: int
  end_line :: int
  file_path :: string
  language :: string
  module_path :: "string option"
  class_name :: "string option"
  imports_list :: "string list"
  exports :: "string list"
  type_parameters :: "string list"
  decorators :: "string list"
  calls :: "string set"
  extends :: "string set"
  implements :: "string set"
  uses_types :: "string set"
  ecs_component :: bool
  ecs_system :: bool
  webxr_api_usage :: "string set"
  three_js_usage :: "string set"
  semantic_labels :: "string set"
  metadata :: "(int \<times> string list) option"

text \<open>The constructor call \<open>TypeScriptChunk(content=, chunk_type=, name=, start_line=,
  end_line=, file_path=, language=, imports=)\<close>: the other fields take the defaults of
  the dataclass.\<close>

definition TypeScriptChunk ::
  "string \<Rightarrow> string \<Rightarrow> string \<Rightarrow> int \<Rightarrow> int \<Rightarrow> string \<Rightarrow> string \<Rightarrow> string list \<Rightarrow> chunk" where
  "TypeScriptChunk c t n s e f l imps =
     \<lparr>content = c, chunk_type = t, name = n, start_line = s, end_line = e,
      file_path = f, language = l, module_path = None, class_name = None,
      imports_list = imps, exports = [], type_parameters = [], decorators = [],
      calls = {}, extends = {}, implements = {}, uses_types = {},
      ecs_component = False, ecs_system = False,
      webxr_api_usage = {}, three_js_usage = {}, semantic_labels = {}, metadata = None\<rparr>"

section \<open>The chunker (ast\_chunker.py)\<close>

record ChunkingConfig =
  MIN_CHUNK_SIZE :: int
  MAX_CHUNK_SIZE :: int
  TARGET_CHUNK_SIZE :: int
  CONTEXT_LINES :: int

definition default_config :: ChunkingConfig where
  "default_config =
     \<lparr>MIN_CHUNK_SIZE = 15, MAX_CHUNK_SIZE = 100, TARGET_CHUNK_SIZE = 50, CONTEXT_LINES = 3\<rparr>"

text \<open>
  What the chunker takes from outside the program. \<open>read_lines p\<close> is the result of
  \<open>open(p, 'r').readlines()\<close>: the lines of the file, or \<open>None\<close> when the read raises
  (the file is missing, unreadable or not decodable). \<open>set_order S\<close> is the order in
  which Python iterates the set \<open>S\<close> (\<open>list(set(...))\<close>), which the language leaves open.
  \<open>str_lower s\<close> is \<open>s.lower()\<close>.
\<close>

record env =
  read_lines :: "string \<Rightarrow> string list option"
  set_order :: "string set \<Rightarrow> string list"
  str_lower :: "string \<Rightarrow> string"

definition lifecycle_prefixes :: "string list" where
  "lifecycle_prefixes = [''on'', ''handle'', ''init'', ''update'', ''cleanup'', ''destroy'']"

text \<open>\<open>_are_related\<close>: each \<open>return\<close> of the source is one branch. \<open>lower_fn\<close> is
  \<open>str.lower\<close>.\<close>

definition are_related :: "(string \<Rightarrow> string) \<Rightarrow> string \<Rightarrow> string \<Rightarrow> bool" where
  "are_related lower_fn name1 name2 =
     (let name1_lower = lower_fn name1; name2_lower = lower_fn name2 in
      if startswith name1_lower ''get'' \<and> startswith name2_lower ''set''
        then drop 3 name1_lower = drop 3 name2_lower
      else if startswith name1_lower ''set'' \<and> startswith name2_lower ''get''
        then drop 3 name1_lower = drop 3 name2_lower
      else if list_ex (\<lambda>prefix. startswith name1_lower prefix \<and> startswith name2_lower prefix)
                lifecycle_prefixes
        then True
      else if list_ex (\<lambda>name. let base = rstrip_digits name
                              in str_in base name1_lower \<and> str_in base name2_lower)
                [name1_lower, name2_lower]
        then True
      else False)"

text \<open>\<open>_should_merge\<close>. The two tests nested under \<open>chunk1.chunk_type ==
  chunk2.chunk_type\<close> are written as two branches that repeat that test.\<close>

definition should_merge ::
  "ChunkingConfig \<Rightarrow> (string \<Rightarrow> string) \<Rightarrow> chunk \<Rightarrow> chunk \<Rightarrow> bool" where
  "should_merge cfg lower_fn chunk1 chunk2 =
     (if file_path chunk1 \<noteq> file_path chunk2 then False
      else let gap = start_line chunk2 - end_line chunk1 in
        if gap > 5 then False
        else let combined_size = end_line chunk2 - start_line chunk1 + 1 in
          if combined_size > MAX_CHUNK_SIZE cfg then False
          else if chunk_type chunk1 = chunk_type chunk2
                  \<and> are_related lower_fn (name chunk1) (name chunk2) then True
          else if chunk_type chunk1 = chunk_type chunk2
                  \<and> chunk_type chunk1 = ''function''
                  \<and> class_name chunk1 = class_name chunk2 then True
          else if chunk_type chunk1 \<in> set [''interface'', ''type'']
                  \<and> chunk_type chunk2 \<in> set [''interface'', ''type''] then True
          else False)"

text \<open>\<open>_merge_chunks\<close>. The \<open>try\<close> block reads the file; its \<open>except\<close> branch is the
  \<open>None\<close> case.\<close>

definition merge_chunks :: "env \<Rightarrow> chunk \<Rightarrow> chunk \<Rightarrow> chunk" where
  "merge_chunks w chunk1 chunk2 =
     (let first = (if start_line chunk1 < start_line chunk2 then chunk1 else chunk2);
          second = (if start_line chunk1 < start_line chunk2 then chunk2 else chunk1);
          merged_content =
            (case read_lines w (file_path first) of
               Some lines \<Rightarrow> concat (py_slice lines (start_line first - 1) (end_line second))
             | None \<Rightarrow> content first @ [CHR 0x0A] @ content second);
          merged = TypeScriptChunk merged_content
                     (chunk_type first @ ''_group'')
                     (name first @ ''_and_'' @ name second)
                     (start_line first) (end_line second)
                     (file_path first) (language first)
                     (set_order w (set (imports_list first @ imports_list second)))
      in merged\<lparr>calls := calls first \<union> calls second,
                extends := extends first \<union> extends second,
                implements := implements first \<union> implements second,
                uses_types := uses_types first \<union> uses_types second,
                semantic_labels :=
                  insert ''merged_chunk'' (semantic_labels first \<union> semantic_labels second),
                ecs_component := ecs_component first \<or> ecs_component second,
                ecs_system := ecs_system first \<or> ecs_system second,
                webxr_api_usage := webxr_api_usage first \<union> webxr_api_usage second,
                three_js_usage := three_js_usage first \<union> three_js_usage second,
                metadata := Some (2, [name first, name second])\<rparr>)"

text \<open>\<open>_expand_with_context\<close>. Everything is inside the \<open>try\<close>; the handler returns the
  argument itself.\<close>

definition expand_with_context :: "ChunkingConfig \<Rightarrow> env \<Rightarrow> chunk \<Rightarrow> chunk" where
  "expand_with_context cfg w chunk =
     (case read_lines w (file_path chunk) of
        None \<Rightarrow> chunk
      | Some lines \<Rightarrow>
         (let total_lines = int (length lines);
              current_size = end_line chunk - start_line chunk + 1;
              needed = MIN_CHUNK_SIZE cfg - current_size;
              expand_before = needed div 2;
              expand_after = needed - expand_before;
              new_start = max 1 (start_line chunk - expand_before);
              new_end = min total_lines (end_line chunk + expand_after);
              expanded_content = concat (py_slice lines (new_start - 1) new_end);
              expanded = TypeScriptChunk expanded_content (chunk_type chunk) (name chunk)
                           new_start new_end (file_path chunk) (language chunk)
                           (imports_list chunk)
          in expanded\<lparr>calls := calls chunk,
                       extends := extends chunk,
                       implements := implements chunk,
                       uses_types := uses_types chunk,
                       semantic_labels := semantic_labels chunk \<union> {''expanded_context''},
                       ecs_component := ecs_component chunk,
                       ecs_system := ecs_system chunk,
                       webxr_api_usage := webxr_api_usage chunk,
                       three_js_usage := three_js_usage chunk\<rparr>))"

text \<open>\<open>_try_merge_small_chunk\<close>. \<open>index < len(chunks) - 1\<close> is \<open>index + 1 < length chunks\<close>;
  the result is the merged chunk with the set of the two indices it was built from.\<close>

definition try_merge_small_chunk ::
  "ChunkingConfig \<Rightarrow> env \<Rightarrow> chunk list \<Rightarrow> nat \<Rightarrow> nat set \<Rightarrow> (chunk \<times> nat set) option" where
  "try_merge_small_chunk cfg w chunks index consumed_set =
     (let current = chunks ! index in
      if index + 1 < length chunks \<and> index + 1 \<notin> consumed_set
           \<and> should_merge cfg (str_lower w) current (chunks ! (index + 1))
        then Some (merge_chunks w current (chunks ! (index + 1)), {index, index + 1})
      else if index > 0 \<and> index - 1 \<notin> consumed_set
           \<and> should_merge cfg (str_lower w) (chunks ! (index - 1)) current
        then Some (merge_chunks w (chunks ! (index - 1)) current, {index - 1, index})
      else None)"

text \<open>
  The state of the loop of \<open>_optimize_file_chunks\<close>: the variables \<open>optimized\<close>,
  \<open>consumed\<close> and \<open>i\<close> of the source. \<open>sources\<close> is a ghost variable the source does not
  have: for each chunk appended to \<open>optimized\<close>, at the same position, the set of input
  indices it was built from (the two indices a merge returns, the index \<open>i\<close> for an
  expanded or passed-through chunk). Nothing reads it.

  The oversize branch adds its label to the chunk object in place. The input list is
  immutable here and the labelled chunk is what enters \<open>optimized\<close>: the scan never reads
  the labels of an input chunk, and it reads a chunk again only as the backward partner
  of its successor, which an oversized chunk, being consumed, never is.
\<close>

record scan_state =
  optimized :: "chunk list"
  consumed :: "nat set"
  pos :: nat
  sources :: "nat set list"

text \<open>One iteration of the \<open>while\<close> loop, for \<open>i < len(chunks)\<close>.\<close>

definition scan_step :: "ChunkingConfig \<Rightarrow> env \<Rightarrow> chunk list \<Rightarrow> scan_state \<Rightarrow> scan_state" where
  "scan_step cfg w chunks st =
     (let i = pos st in
      if i \<in> consumed st then st\<lparr>pos := i + 1\<rparr>
      else
        let chunk = chunks ! i;
            chunk_size = end_line chunk - start_line chunk + 1 in
        if chunk_size < MIN_CHUNK_SIZE cfg then
          (case try_merge_small_chunk cfg w chunks i (consumed st) of
             Some (merged_chunk, consumed_indices) \<Rightarrow>
               st\<lparr>optimized := optimized st @ [merged_chunk],
                  consumed := consumed st \<union> consumed_indices,
                  pos := i + 1,
                  sources := sources st @ [consumed_indices]\<rparr>
           | None \<Rightarrow>
               st\<lparr>optimized := optimized st @ [expand_with_context cfg w chunk],
                  pos := i + 1,
                  sources := sources st @ [{i}]\<rparr>)
        else if chunk_size > MAX_CHUNK_SIZE cfg then
          st\<lparr>optimized := optimized st
                 @ [chunk\<lparr>semantic_labels := insert ''large_chunk'' (semantic_labels chunk)\<rparr>],
             consumed := insert i (consumed st),
             pos := i + 1,
             sources := sources st @ [{i}]\<rparr>
        else
          st\<lparr>optimized := optimized st @ [chunk],
             consumed := insert i (consumed st),
             pos := i + 1,
             sources := sources st @ [{i}]\<rparr>)"

function scan :: "ChunkingConfig \<Rightarrow> env \<Rightarrow> chunk list \<Rightarrow> scan_state \<Rightarrow> scan_state" where
  "scan cfg w chunks st =
     (if pos st < length chunks then scan cfg w chunks (scan_step cfg w chunks st) else st)"
  by pat_completeness auto
termination
  by (relation "measure (\<lambda>(cfg, w, chunks, st). length chunks - pos st)")
     (auto simp: scan_step_def Let_def split: option.split prod.split)

declare scan.simps [simp del]

definition initial_state :: scan_state where
  "initial_state = \<lparr>optimized = [], consumed = {}, pos = 0, sources = []\<rparr>"

text \<open>The state in which the loop of \<open>_optimize_file_chunks\<close> ends.\<close>

definition final_state :: "ChunkingConfig \<Rightarrow> env \<Rightarrow> chunk list \<Rightarrow> scan_state" where
  "final_state cfg w chunks = scan cfg w chunks initial_state"

text \<open>The validation after the loop: \<open>None\<close> when \<open>len(consumed) == len(chunks)\<close>,
  otherwise the warning with the sorted unconsumed indices that the source prints.\<close>

definition completeness_warning :: "ChunkingConfig \<Rightarrow> env \<Rightarrow> chunk list \<Rightarrow> nat list option" where
  "completeness_warning cfg w chunks =
     (let st = final_state cfg w chunks in
      if card (consumed st) \<noteq> length chunks
        then Some (sorted_list_of_set (set [0..<length chunks] - consumed st))
      else None)"

text \<open>\<open>_optimize_file_chunks\<close> returns \<open>optimized\<close>.\<close>

definition optimize_file_chunks :: "ChunkingConfig \<Rightarrow> env \<Rightarrow> chunk list \<Rightarrow> chunk list" where
  "optimize_file_chunks cfg w chunks = optimized (final_state cfg w chunks)"

text \<open>The ghost provenance of the returned list, position by position.\<close>

definition output_sources :: "ChunkingConfig \<Rightarrow> env \<Rightarrow> chunk list \<Rightarrow> nat set list" where
  "output_sources cfg w chunks = sources (final_state cfg w chunks)"

text \<open>
  \<open>optimize_chunks\<close>. The dictionary \<open>by_file\<close> keeps its keys in insertion order, so it
  is an association list; \<open>add_chunk\<close> is the body of the grouping loop.
\<close>

definition add_chunk ::
  "chunk \<Rightarrow> (string \<times> chunk list) list \<Rightarrow> (string \<times> chunk list) list" where
  "add_chunk chunk by_file =
     (let by_file1 = (if file_path chunk \<notin> fst ` set by_file
                      then by_file @ [(file_path chunk, [])] else by_file)
      in map (\<lambda>(k, v). if k = file_path chunk then (k, v @ [chunk]) else (k, v)) by_file1)"

definition group_by_file :: "chunk list \<Rightarrow> (string \<times> chunk list) list" where
  "group_by_file chunks = fold add_chunk chunks []"

definition optimize_chunks :: "ChunkingConfig \<Rightarrow> env \<Rightarrow> chunk list \<Rightarrow> chunk list" where
  "optimize_chunks cfg w chunks =
     (if chunks = [] then chunks
      else concat (map (\<lambda>(file_path, file_chunks).
                          optimize_file_chunks cfg w (sort_key start_line file_chunks))
                       (group_by_file chunks)))"

section \<open>The parser (typescript\_parser.py)\<close>

text \<open>
  A node of the syntax tree that the external parser engine returns: its \<open>type\<close>, the
  field name under which its parent holds it (if any), its byte span, the rows of its
  start and end points, and its children in order.
\<close>

datatype node =
  Node (ntype: string) (field: "string option") (start_byte: nat) (end_byte: nat)
       (start_row: nat) (end_row: nat) (children: "node list")

text \<open>\<open>_get_node_text\<close>: the byte slice of the source; decoding is the identity on the
  one-byte characters of \<open>string\<close>.\<close>

definition get_node_text :: "node option \<Rightarrow> string \<Rightarrow> string" where
  "get_node_text node source_code =
     (case node of
        None \<Rightarrow> []
      | Some n \<Rightarrow> py_slice source_code (int (start_byte n)) (int (end_byte n)))"

text \<open>\<open>node.child_by_field_name(f)\<close>.\<close>

definition child_by_field_name :: "node \<Rightarrow> string \<Rightarrow> node option" where
  "child_by_field_name n f = find (\<lambda>c. field c = Some f) (children n)"

text \<open>\<open>_find_nodes_by_type\<close>: the node itself when it matches, then the matches below each
  child, in order.\<close>

fun find_nodes_by_type :: "node \<Rightarrow> string \<Rightarrow> node list" where
  "find_nodes_by_type (Node t f sb eb sr er cs) node_type =
     (if t = node_type then [Node t f sb eb sr er cs] else [])
     @ concat (map (\<lambda>child. find_nodes_by_type child node_type) cs)"

text \<open>\<open>_detect_ecs_patterns\<close>: three \<open>if\<close> statements in sequence, the last with an
  \<open>elif\<close>. \<open>lower_fn\<close> is \<open>str.lower\<close>.\<close>

definition detect_ecs_patterns :: "(string \<Rightarrow> string) \<Rightarrow> chunk \<Rightarrow> chunk" where
  "detect_ecs_patterns lower_fn chunk =
     (let content_lower = lower_fn (content chunk);
          chunk1 = (if str_in ''implements component'' content_lower
                       \<or> str_in ''extends componentbase'' content_lower
                    then chunk\<lparr>ecs_component := True,
                               semantic_labels := insert ''ecs_component'' (semantic_labels chunk)\<rparr>
                    else chunk);
          chunk2 = (if str_in ''extends system'' content_lower
                       \<or> str_in ''implements isystem'' content_lower
                       \<or> ''createSystem'' \<in> extends chunk1
                    then chunk1\<lparr>ecs_system := True,
                                semantic_labels := insert ''ecs_system'' (semantic_labels chunk1)\<rparr>
                    else chunk1)
      in if str_in ''transform'' (lower_fn (name chunk2))
           then chunk2\<lparr>semantic_labels := insert ''transform_component'' (semantic_labels chunk2)\<rparr>
         else if str_in ''physics'' (lower_fn (name chunk2))
           then chunk2\<lparr>semantic_labels := insert ''physics_component'' (semantic_labels chunk2)\<rparr>
         else chunk2)"

definition webxr_apis :: "string list" where
  "webxr_apis = [''XRSession'', ''XRFrame'', ''XRReferenceSpace'', ''XRViewerPose'',
                 ''XRInputSource'', ''XRHand'', ''requestSession'', ''requestAnimationFrame'']"

definition threejs_patterns :: "string list" where
  "threejs_patterns = [''THREE.'', ''Scene'', ''Mesh'', ''Material'', ''Geometry'']"

text \<open>\<open>_detect_webxr_patterns\<close>: the two \<open>for\<close> loops.\<close>

definition detect_webxr_patterns :: "chunk \<Rightarrow> chunk" where
  "detect_webxr_patterns chunk =
     (let chunk1 = fold (\<lambda>api ch. if str_in api (content ch)
                                   then ch\<lparr>webxr_api_usage := insert api (webxr_api_usage ch),
                                           semantic_labels := insert ''webxr_api'' (semantic_labels ch)\<rparr>
                                   else ch) webxr_apis chunk
      in fold (\<lambda>pattern ch. if str_in pattern (content ch)
                              then ch\<lparr>three_js_usage := insert pattern (three_js_usage ch),
                                      semantic_labels := insert ''threejs_usage'' (semantic_labels ch)\<rparr>
                              else ch) threejs_patterns chunk1)"

text \<open>The body of the loop over \<open>extends_node.children\<close> in \<open>_parse_class\<close>.\<close>

definition add_extends :: "string \<Rightarrow> node \<Rightarrow> chunk \<Rightarrow> chunk" where
  "add_extends source_code child chunk =
     (if ntype child \<in> set [''identifier'', ''type_identifier'']
        then chunk\<lparr>extends := insert (get_node_text (Some child) source_code) (extends chunk)\<rparr>
      else if ntype child = ''call_expression''
        then (case child_by_field_name child ''function'' of
                Some func_node \<Rightarrow>
                  chunk\<lparr>extends := insert (get_node_text (Some func_node) source_code) (extends chunk)\<rparr>
              | None \<Rightarrow> chunk)
      else if ntype child = ''member_expression''
        then chunk\<lparr>extends := insert (get_node_text (Some child) source_code) (extends chunk)\<rparr>
      else chunk)"

text \<open>The body of the loop over the type identifiers of an implements clause.\<close>

definition add_implements :: "string \<Rightarrow> node \<Rightarrow> chunk \<Rightarrow> chunk" where
  "add_implements source_code type_node chunk =
     chunk\<lparr>implements := insert (get_node_text (Some type_node) source_code) (implements chunk)\<rparr>"

text \<open>\<open>_parse_class\<close>. The nested \<open>for\<close> loops are nested folds over the chunk being
  filled in; \<open>lower_fn\<close> is the \<open>str.lower\<close> that pattern detection calls.\<close>

definition parse_class ::
  "(string \<Rightarrow> string) \<Rightarrow> node \<Rightarrow> string \<Rightarrow> string \<Rightarrow> string \<Rightarrow> string list \<Rightarrow> chunk" where
  "parse_class lower_fn class_node source_code path lang imps =
     (let cname = (case child_by_field_name class_node ''name'' of
                     Some name_node \<Rightarrow> get_node_text (Some name_node) source_code
                   | None \<Rightarrow> ''UnknownClass'');
          chunk0 = TypeScriptChunk (get_node_text (Some class_node) source_code) ''class'' cname
                     (int (start_row class_node) + 1) (int (end_row class_node) + 1)
                     path lang imps;
          chunk1 = fold (\<lambda>heritage chunk.
                      let chunk_e = fold (\<lambda>extends_node.
                                            fold (add_extends source_code) (children extends_node))
                                      (find_nodes_by_type heritage ''extends_clause'') chunk
                      in fold (\<lambda>implements_node.
                                 fold (add_implements source_code)
                                   (find_nodes_by_type implements_node ''type_identifier''))
                           (find_nodes_by_type heritage ''implements_clause'') chunk_e)
                    (find_nodes_by_type class_node ''class_heritage'') chunk0
      in detect_webxr_patterns (detect_ecs_patterns lower_fn chunk1))"

section \<open>The vector store (vector\_store.py)\<close>

text \<open>A value of the metadata dictionary.\<close>

datatype meta_value = MStr string | MInt int | MBool bool

text \<open>
  \<open>_create_metadata\<close>. \<open>path_parts\<close> is \<open>Path(p).parts\<close> of pathlib and \<open>set_ord\<close> the
  iteration order of a set, both taken from outside; \<open>source\<close> and the optional fields
  are tested for truth, so \<open>None\<close> and the empty string both skip the entry.
\<close>

definition truthy :: "string option \<Rightarrow> bool" where
  "truthy s = (case s of None \<Rightarrow> False | Some t \<Rightarrow> t \<noteq> [])"

definition create_metadata ::
  "(string \<Rightarrow> string list) \<Rightarrow> (string set \<Rightarrow> string list) \<Rightarrow> chunk \<Rightarrow> string option
     \<Rightarrow> (string \<rightharpoonup> meta_value)" where
  "create_metadata path_parts set_ord chunk source =
     (let file_parts = path_parts (file_path chunk);
          rel_path = (if ''src'' \<in> set file_parts
                      then (let src_idx = length (takeWhile (\<lambda>p. p \<noteq> ''src'') file_parts)
                            in join ''/'' (drop src_idx file_parts))
                      else file_path chunk);
          m0 = [''chunk_type'' \<mapsto> MStr (chunk_type chunk),
                ''name'' \<mapsto> MStr (name chunk),
                ''file_path'' \<mapsto> MStr rel_path,
                ''start_line'' \<mapsto> MInt (start_line chunk),
                ''end_line'' \<mapsto> MInt (end_line chunk),
                ''language'' \<mapsto> MStr (language chunk),
                ''size'' \<mapsto> MInt (end_line chunk - start_line chunk + 1)];
          m1 = (if truthy source then m0(''source'' \<mapsto> MStr (the source)) else m0);
          m2 = (if truthy (class_name chunk)
                then m1(''class_name'' \<mapsto> MStr (the (class_name chunk))) else m1);
          m3 = (if truthy (module_path chunk)
                then m2(''module_path'' \<mapsto> MStr (the (module_path chunk))) else m2);
          m4 = (if semantic_labels chunk \<noteq> {}
                then m3(''labels'' \<mapsto> MStr (join '','' (sorted_list_of_set (semantic_labels chunk))))
                else m3);
          m5 = (if extends chunk \<noteq> {}
                then m4(''extends'' \<mapsto> MStr (join '','' (set_ord (extends chunk)))) else m4);
          m6 = (if implements chunk \<noteq> {}
                then m5(''implements'' \<mapsto> MStr (join '','' (set_ord (implements chunk)))) else m5);
          m7 = (if imports_list chunk \<noteq> []
                then (let imports_str = join '','' (take 5 (imports_list chunk))
                      in if length imports_str < 1000
                         then m6(''imports'' \<mapsto> MStr imports_str) else m6)
                else m6);
          m8 = (if calls chunk \<noteq> {}
                then (let calls_str = join '','' (take 10 (set_ord (calls chunk)))
                      in if length calls_str < 1000
                         then m7(''calls'' \<mapsto> MStr calls_str) else m7)
                else m7);
          m9 = (if webxr_api_usage chunk \<noteq> {}
                then m8(''webxr_api'' \<mapsto> MStr (join '','' (take 5 (set_ord (webxr_api_usage chunk)))))
                else m8)
      in m9(''ecs_component'' \<mapsto> MBool (ecs_component chunk),
            ''ecs_system'' \<mapsto> MBool (ecs_system chunk)))"

section \<open>Notions used to state the properties\<close>

text \<open>
  How an output chunk \<open>c\<close> with ghost provenance \<open>s\<close> was built from the input list: from
  one index, by pass-through, expansion or the oversize label, or from two adjacent
  indices by a merge.
\<close>

definition built_from ::
  "ChunkingConfig \<Rightarrow> env \<Rightarrow> chunk list \<Rightarrow> chunk \<Rightarrow> nat set \<Rightarrow> bool" where
  "built_from cfg w chunks c s =
     ((\<exists>i < length chunks. s = {i} \<and>
          (c = chunks ! i \<or> c = expand_with_context cfg w (chunks ! i)
           \<or> c = (chunks ! i)\<lparr>semantic_labels :=
                                 insert ''large_chunk'' (semantic_labels (chunks ! i))\<rparr>))
      \<or> (\<exists>i. i + 1 < length chunks \<and> s = {i, i + 1}
            \<and> c = merge_chunks w (chunks ! i) (chunks ! (i + 1))))"

text \<open>The backward merge of index \<open>i\<close> cannot fire: its partner is consumed, or the pair
  is not eligible.\<close>

definition back_blocked ::
  "ChunkingConfig \<Rightarrow> env \<Rightarrow> chunk list \<Rightarrow> nat \<Rightarrow> nat set \<Rightarrow> bool" where
  "back_blocked cfg w chunks i cs =
     (0 < i \<and> i < length chunks \<and> i - 1 \<notin> cs
        \<longrightarrow> \<not> should_merge cfg (str_lower w) (chunks ! (i - 1)) (chunks ! i))"

text \<open>The loop invariant of \<open>_optimize_file_chunks\<close>.\<close>

definition scan_inv :: "ChunkingConfig \<Rightarrow> env \<Rightarrow> chunk list \<Rightarrow> scan_state \<Rightarrow> bool" where
  "scan_inv cfg w chunks st =
     (pos st \<le> length chunks
      \<and> consumed st \<subseteq> {..pos st} \<inter> {..<length chunks}
      \<and> list_all2 (built_from cfg w chunks) (optimized st) (sources st)
      \<and> (\<forall>k. length (filter (\<lambda>s. k \<in> s) (sources st))
               = (if k < pos st \<or> (k = pos st \<and> k \<in> consumed st) then 1 else 0))
      \<and> back_blocked cfg w chunks (pos st) (consumed st))"

text \<open>The distinct elements of a list in the order of their first occurrence: the key
  order of a dictionary filled from the list.\<close>

definition first_seen :: "'a list \<Rightarrow> 'a list" where
  "first_seen xs = rev (remdups (rev xs))"

text \<open>
  The eligibility test as the specification words it: same file, gap and combined size
  within bounds, and either the same type with a getter/setter pair, a shared lifecycle
  prefix or (for functions) the same enclosing class, or two types among interface and
  type. Names are compared in lower case, as the code does, by the lower-casing function
  \<open>lower_fn\<close>.
\<close>

definition spec_getter_setter :: "string \<Rightarrow> string \<Rightarrow> bool" where
  "spec_getter_setter n1 n2 =
     (((startswith n1 ''get'' \<and> startswith n2 ''set'')
        \<or> (startswith n1 ''set'' \<and> startswith n2 ''get''))
      \<and> drop 3 n1 = drop 3 n2)"

definition spec_lifecycle :: "string \<Rightarrow> string \<Rightarrow> bool" where
  "spec_lifecycle n1 n2 =
     list_ex (\<lambda>p. startswith n1 p \<and> startswith n2 p) lifecycle_prefixes"


text \<open>The rule of \<open>_are_related\<close> that the specification does not list: one of the two
  names, with its trailing digits stripped, occurs in both names.\<close>

definition shared_base :: "string \<Rightarrow> string \<Rightarrow> bool" where
  "shared_base n1 n2 =
     ((str_in (rstrip_digits n1) n1 \<and> str_in (rstrip_digits n1) n2)
      \<or> (str_in (rstrip_digits n2) n1 \<and> str_in (rstrip_digits n2) n2))"

text \<open>The two names have the shape of a getter/setter pair: one starts with \<open>get\<close> and
  the other with \<open>set\<close>. For such a pair \<open>_are_related\<close> compares the remainders and looks
  no further.\<close>

definition getset_shape :: "string \<Rightarrow> string \<Rightarrow> bool" where
  "getset_shape n1 n2 =
     ((startswith n1 ''get'' \<and> startswith n2 ''set'')
      \<or> (startswith n1 ''set'' \<and> startswith n2 ''get''))"

text \<open>A chunk whose size lies within the band of the configuration.\<close>

definition in_band :: "ChunkingConfig \<Rightarrow> chunk \<Rightarrow> bool" where
  "in_band cfg c = (MIN_CHUNK_SIZE cfg \<le> end_line c - start_line c + 1
                     \<and> end_line c - start_line c + 1 \<le> MAX_CHUNK_SIZE cfg)"

text \<open>What heritage resolution adds to \<open>extends\<close> for one child of an extends clause.\<close>

definition extends_contribution :: "string \<Rightarrow> node \<Rightarrow> string set" where
  "extends_contribution source_code child =
     (if ntype child = ''identifier'' \<or> ntype child = ''type_identifier''
        then {get_node_text (Some child) source_code}
      else if ntype child = ''call_expression''
        then (case child_by_field_name child ''function'' of
                Some callee \<Rightarrow> {get_node_text (Some callee) source_code}
              | None \<Rightarrow> {})
      else if ntype child = ''member_expression''
        then {get_node_text (Some child) source_code}
      else {})"

section \<open>Example inputs\<close>

text \<open>An environment in which no file can be read, with sets iterated in sorted order
  and ASCII lower-casing.\<close>

definition env_no_files :: env where
  "env_no_files =
     \<lparr>read_lines = (\<lambda>p. None), set_order = sorted_list_of_set, str_lower = lower\<rparr>"

text \<open>A chunk as the parser builds it for a declaration of the file \<open>src/a.ts\<close>.\<close>

definition example_chunk :: "string \<Rightarrow> string \<Rightarrow> int \<Rightarrow> int \<Rightarrow> chunk" where
  "example_chunk t n s e = TypeScriptChunk [] t n s e ''src/a.ts'' ''typescript'' []"

text \<open>An environment whose only readable file, \<open>src/a.ts\<close>, has twenty lines.\<close>

definition env_one_file :: env where
  "env_one_file =
     \<lparr>read_lines = (\<lambda>p. if p = ''src/a.ts'' then Some (replicate 20 [CHR ''x'', CHR 0x0A])
                          else None),
      set_order = sorted_list_of_set, str_lower = lower\<rparr>"

text \<open>The merge scenario of the specification: a getter on lines 10 to 14 and its setter
  on lines 16 to 19.\<close>

definition getX_chunk :: chunk where
  "getX_chunk = example_chunk ''function'' ''getX'' 10 14"

definition setX_chunk :: chunk where
  "setX_chunk = example_chunk ''function'' ''setX'' 16 19"

text \<open>A one-line class with no neighbour.\<close>

definition small_chunk :: chunk where
  "small_chunk = example_chunk ''class'' ''Solo'' 5 5"

text \<open>A ten-line class \<open>Foo\<close> and the class \<open>FooInner\<close> declared inside one of its methods,
  on lines 3 to 5: the parser collects class declarations at every depth.\<close>

definition outer_class :: chunk where
  "outer_class = example_chunk ''class'' ''Foo'' 1 10"

definition inner_class :: chunk where
  "inner_class = example_chunk ''class'' ''FooInner'' 3 5"



text \<open>Two chunks of one file within the size band, listed with the later one first.\<close>

definition late_chunk :: chunk where
  "late_chunk = example_chunk ''class'' ''B'' 50 70"

definition early_chunk :: chunk where
  "early_chunk = example_chunk ''class'' ''A'' 1 20"

text \<open>Two chunks carrying relationships and flags.\<close>

definition rich_getter :: chunk where
  "rich_getter = getX_chunk\<lparr>calls := {''read''}, extends := {''Base''}, ecs_component := True\<rparr>"

definition rich_setter :: chunk where
  "rich_setter = setX_chunk\<lparr>calls := {''write''}, extends := {''Other''},
                             implements := {''Settable''}\<rparr>"

text \<open>
  Three one-line classes with the syntax trees of the TypeScript grammar: the heritage
  holds one extends clause, whose children are the keyword and the extended expression.
\<close>

definition leaf :: "string \<Rightarrow> string option \<Rightarrow> nat \<Rightarrow> nat \<Rightarrow> node" where
  "leaf t f sb eb = Node t f sb eb 0 0 []"

definition class_node_of :: "nat \<Rightarrow> node \<Rightarrow> nat \<Rightarrow> node" where
  "class_node_of ext_end ext_value src_end =
     Node ''class_declaration'' None 0 src_end 0 0
       [leaf ''class'' None 0 5,
        leaf ''type_identifier'' (Some ''name'') 6 9,
        Node ''class_heritage'' None 10 ext_end 0 0
          [Node ''extends_clause'' None 10 ext_end 0 0
             [leaf ''extends'' None 10 17, ext_value]],
        Node ''class_body'' (Some ''body'') (ext_end + 1) src_end 0 0
          [leaf ''{'' None (ext_end + 1) (ext_end + 2), leaf ''}'' None (ext_end + 2) src_end]]"

definition plain_source :: string where
  "plain_source = ''class Foo extends Bar {}''"

definition plain_tree :: node where
  "plain_tree = class_node_of 21 (leaf ''identifier'' (Some ''value'') 18 21) 24"

definition call_source :: string where
  "call_source = ''class Foo extends createSystem(Base) {}''"

definition call_tree :: node where
  "call_tree =
     class_node_of 36
       (Node ''call_expression'' (Some ''value'') 18 36 0 0
          [leaf ''identifier'' (Some ''function'') 18 30,
           Node ''arguments'' (Some ''arguments'') 30 36 0 0
             [leaf ''('' None 30 31, leaf ''identifier'' None 31 35, leaf '')'' None 35 36]])
       39"

definition member_source :: string where
  "member_source = ''class Foo extends Three.Group {}''"

definition member_tree :: node where
  "member_tree =
     class_node_of 29
       (Node ''member_expression'' (Some ''value'') 18 29 0 0
          [leaf ''identifier'' (Some ''object'') 18 23,
           leaf ''.'' None 23 24,
           leaf ''property_identifier'' (Some ''property'') 24 29])
       32"

text \<open>A class named after a transform, with no ECS phrase in its content.\<close>

definition transform_class :: chunk where
  "transform_class = example_chunk ''class'' ''Transform'' 1 20"

text \<open>A class named after physics only.\<close>

definition physics_class :: chunk where
  "physics_class = example_chunk ''class'' ''PhysicsBody'' 1 20"

text \<open>A class whose base expression and whose only call are a name of 1000 characters.\<close>

definition long_name :: string where
  "long_name = replicate 1000 (CHR ''a'')"

definition long_extends_class :: chunk where
  "long_extends_class =
     (example_chunk ''class'' ''Foo'' 1 20)\<lparr>calls := {long_name}, extends := {long_name}\<rparr>"

section \<open>The scan of one file\<close>

lemma pos_scan_step: "pos (scan_step cfg w chunks st) = pos st + 1"
  by (simp add: scan_step_def Let_def split: option.split prod.split)

lemma pos_scan: "pos st \<le> length chunks \<Longrightarrow> pos (scan cfg w chunks st) = length chunks"
proof (induction cfg w chunks st rule: scan.induct)
  case (1 cfg w chunks st)
  show ?case
  proof (cases "pos st < length chunks")
    case True
    then show ?thesis using 1 by (subst scan.simps) (simp add: pos_scan_step)
  next
    case False
    then show ?thesis using 1 by (subst scan.simps) simp
  qed
qed

lemma scan_inv_initial: "scan_inv cfg w chunks initial_state"
  by (simp add: scan_inv_def initial_state_def back_blocked_def)

text \<open>Under the invariant only the forward merge can succeed: the chunk before \<open>i\<close> is
  either consumed or was already refused as a partner when it was scanned itself.\<close>

lemma try_merge_forward_only:
  assumes "cs \<subseteq> {..i}" "i < length chunks" "back_blocked cfg w chunks i cs"
  shows "try_merge_small_chunk cfg w chunks i cs =
           (if i + 1 < length chunks \<and> should_merge cfg (str_lower w) (chunks ! i) (chunks ! (i + 1))
            then Some (merge_chunks w (chunks ! i) (chunks ! (i + 1)), {i, i + 1})
            else None)"
proof -
  have "i + 1 \<notin> cs" using assms(1) by auto
  moreover have "\<not> (0 < i \<and> i - 1 \<notin> cs \<and> should_merge cfg (str_lower w) (chunks ! (i - 1)) (chunks ! i))"
    using assms(2,3) by (auto simp: back_blocked_def)
  ultimately show ?thesis
    by (auto simp: try_merge_small_chunk_def Let_def)
qed

text \<open>The four ways an iteration can end, under the invariant.\<close>

lemma scan_step_cases:
  assumes inv: "scan_inv cfg w chunks st" and lt: "pos st < length chunks"
  obtains
    (skip) "pos st \<in> consumed st"
           "scan_step cfg w chunks st = st\<lparr>pos := pos st + 1\<rparr>"
  | (merge) "pos st \<notin> consumed st" "pos st + 1 < length chunks"
           "scan_step cfg w chunks st =
              st\<lparr>optimized := optimized st
                     @ [merge_chunks w (chunks ! pos st) (chunks ! (pos st + 1))],
                 consumed := consumed st \<union> {pos st, pos st + 1},
                 pos := pos st + 1,
                 sources := sources st @ [{pos st, pos st + 1}]\<rparr>"
  | (expand) "pos st \<notin> consumed st"
           "pos st + 1 < length chunks
              \<longrightarrow> \<not> should_merge cfg (str_lower w) (chunks ! pos st) (chunks ! (pos st + 1))"
           "scan_step cfg w chunks st =
              st\<lparr>optimized := optimized st @ [expand_with_context cfg w (chunks ! pos st)],
                 pos := pos st + 1,
                 sources := sources st @ [{pos st}]\<rparr>"
  | (pass) c where "pos st \<notin> consumed st" "built_from cfg w chunks c {pos st}"
           "scan_step cfg w chunks st =
              st\<lparr>optimized := optimized st @ [c],
                 consumed := insert (pos st) (consumed st),
                 pos := pos st + 1,
                 sources := sources st @ [{pos st}]\<rparr>"
proof -
  from inv have sub: "consumed st \<subseteq> {..pos st}"
    and bb: "back_blocked cfg w chunks (pos st) (consumed st)"
    by (auto simp: scan_inv_def)
  note tm = try_merge_forward_only[OF sub lt bb]
  let ?i = "pos st"
  let ?sz = "end_line (chunks ! ?i) - start_line (chunks ! ?i) + 1"
  show thesis
  proof (cases "?i \<in> consumed st")
    case True
    then show thesis using skip by (simp add: scan_step_def)
  next
    case nc: False
    show thesis
    proof (cases "?sz < MIN_CHUNK_SIZE cfg")
      case small: True
      show thesis
      proof (cases "?i + 1 < length chunks
                      \<and> should_merge cfg (str_lower w) (chunks ! ?i) (chunks ! (?i + 1))")
        case True
        then have "try_merge_small_chunk cfg w chunks ?i (consumed st)
                     = Some (merge_chunks w (chunks ! ?i) (chunks ! (?i + 1)), {?i, ?i + 1})"
          using tm by simp
        then show thesis using merge nc small True by (simp add: scan_step_def Let_def)
      next
        case False
        then have "try_merge_small_chunk cfg w chunks ?i (consumed st) = None"
          using tm by auto
        then show thesis using expand nc small False by (auto simp: scan_step_def Let_def)
      qed
    next
      case notsmall: False
      show thesis
      proof (cases "?sz > MAX_CHUNK_SIZE cfg")
        case True
        have "built_from cfg w chunks
                ((chunks ! ?i)\<lparr>semantic_labels :=
                                 insert ''large_chunk'' (semantic_labels (chunks ! ?i))\<rparr>) {?i}"
          using lt by (auto simp: built_from_def)
        then show thesis using pass nc notsmall True by (simp add: scan_step_def Let_def)
      next
        case False
        have "built_from cfg w chunks (chunks ! ?i) {?i}"
          using lt by (auto simp: built_from_def)
        then show thesis using pass nc notsmall False by (simp add: scan_step_def Let_def)
      qed
    qed
  qed
qed

lemma scan_inv_step:
  assumes inv: "scan_inv cfg w chunks st" and lt: "pos st < length chunks"
  shows "scan_inv cfg w chunks (scan_step cfg w chunks st)"
proof -
  from inv have sub: "consumed st \<subseteq> {..pos st} \<inter> {..<length chunks}"
    and la: "list_all2 (built_from cfg w chunks) (optimized st) (sources st)"
    and cnt: "\<And>k. length (filter (\<lambda>s. k \<in> s) (sources st))
               = (if k < pos st \<or> (k = pos st \<and> k \<in> consumed st) then 1 else 0)"
    by (auto simp: scan_inv_def)
  have fresh: "pos st + 1 \<notin> consumed st" using sub by auto
  from inv lt show ?thesis
  proof (cases rule: scan_step_cases)
    case skip
    then show ?thesis using fresh sub la cnt lt
      by (auto simp: scan_inv_def back_blocked_def)
  next
    case merge
    have bf: "built_from cfg w chunks
                (merge_chunks w (chunks ! pos st) (chunks ! (pos st + 1))) {pos st, pos st + 1}"
      using merge(2) by (auto simp: built_from_def)
    show ?thesis unfolding scan_inv_def merge(3)
      using merge(1,2) sub la cnt lt bf
      by (auto simp: back_blocked_def list_all2_appendI)
  next
    case expand
    have bf: "built_from cfg w chunks (expand_with_context cfg w (chunks ! pos st)) {pos st}"
      using lt by (auto simp: built_from_def)
    show ?thesis unfolding scan_inv_def expand(3)
      using fresh expand(1,2) sub la cnt lt bf
      by (auto simp: back_blocked_def list_all2_appendI)
  next
    case (pass c)
    show ?thesis unfolding scan_inv_def pass(3)
      using fresh pass(1,2) sub la cnt lt
      by (auto simp: back_blocked_def list_all2_appendI)
  qed
qed

lemma scan_inv_scan:
  "scan_inv cfg w chunks st \<Longrightarrow> scan_inv cfg w chunks (scan cfg w chunks st)"
proof (induction cfg w chunks st rule: scan.induct)
  case (1 cfg w chunks st)
  show ?case
  proof (cases "pos st < length chunks")
    case True
    then show ?thesis using 1 scan_inv_step[OF "1.prems" True]
      by (subst scan.simps) simp
  next
    case False
    then show ?thesis using 1 by (subst scan.simps) simp
  qed
qed

lemma scan_inv_final: "scan_inv cfg w chunks (final_state cfg w chunks)"
  unfolding final_state_def by (rule scan_inv_scan[OF scan_inv_initial])

lemma pos_final: "pos (final_state cfg w chunks) = length chunks"
  unfolding final_state_def by (rule pos_scan) (simp add: initial_state_def)

text \<open>
  Claim C1. For every per-file input list, each input index is accounted for exactly
  once in the optimizer's output: every output chunk is built from one index (passed
  through, expanded or labelled oversized) or from two adjacent indices (one merge), and
  every index \<open>k\<close> of the input belongs to the provenance of exactly one output chunk; no
  index outside the input occurs. In particular an expanded chunk is never merged again
  with the chunk after it.
\<close>

theorem optimizer_accounts_each_index_once:
  "list_all2 (built_from cfg w chunks)
     (optimize_file_chunks cfg w chunks) (output_sources cfg w chunks)
   \<and> length (filter (\<lambda>s. k \<in> s) (output_sources cfg w chunks))
       = (if k < length chunks then 1 else 0)"
proof -
  let ?st = "final_state cfg w chunks"
  have inv: "scan_inv cfg w chunks ?st" by (rule scan_inv_final)
  have p: "pos ?st = length chunks" by (rule pos_final)
  from inv have "consumed ?st \<subseteq> {..<length chunks}" by (auto simp: scan_inv_def)
  then have "length chunks \<notin> consumed ?st" by auto
  with inv p show ?thesis
    by (auto simp: scan_inv_def optimize_file_chunks_def output_sources_def)
qed

section \<open>Expansion and the completeness check\<close>

text \<open>The scan of a single below-minimum chunk: nothing can be merged, the chunk is
  expanded, and \<open>consumed\<close> stays empty.\<close>

lemma final_state_singleton_small:
  assumes "end_line c - start_line c + 1 < MIN_CHUNK_SIZE cfg"
  shows "final_state cfg w [c] =
           \<lparr>optimized = [expand_with_context cfg w c], consumed = {}, pos = 1, sources = [{0}]\<rparr>"
proof -
  have s1: "scan_step cfg w [c] initial_state =
              \<lparr>optimized = [expand_with_context cfg w c], consumed = {}, pos = 1, sources = [{0}]\<rparr>"
    using assms
    by (simp add: scan_step_def initial_state_def try_merge_small_chunk_def Let_def)
  have "scan cfg w [c] initial_state = scan cfg w [c] (scan_step cfg w [c] initial_state)"
    by (subst scan.simps) (simp add: initial_state_def)
  also have "\<dots> = scan_step cfg w [c] initial_state"
    by (subst scan.simps) (simp add: s1)
  finally show ?thesis by (simp add: final_state_def s1)
qed

text \<open>
  Claim C2, at a failing input. A one-line class alone in a readable file of twenty
  lines is expanded to lines 1 to 12 and labelled, but the expansion branch does not add
  its index to \<open>consumed\<close>: after the scan no index is consumed although there is one
  input chunk, and the completeness check reports index 0 as unconsumed.
\<close>

theorem expansion_leaves_index_unconsumed:
  "optimize_file_chunks default_config env_one_file [small_chunk]
     = [(example_chunk ''class'' ''Solo'' 1 12)
          \<lparr>content := concat (replicate 12 [CHR ''x'', CHR 0x0A]),
           semantic_labels := {''expanded_context''}\<rparr>]
   \<and> card (consumed (final_state default_config env_one_file [small_chunk])) = 0
   \<and> completeness_warning default_config env_one_file [small_chunk] = Some [0]"
  by code_simp

text \<open>
  Claim C10. When the source file cannot be read, \<open>_expand_with_context\<close> returns its
  argument itself: no field changes, so the range is not widened, the content is not
  re-sliced and no label is added. A below-minimum chunk that is alone in its file then
  is the optimizer's whole output, unmarked.
\<close>

theorem failed_expansion_returns_chunk_unchanged:
  assumes "read_lines w (file_path c) = None"
  shows "expand_with_context cfg w c = c
         \<and> (end_line c - start_line c + 1 < MIN_CHUNK_SIZE cfg
              \<longrightarrow> optimize_file_chunks cfg w [c] = [c])"
  using assms
  by (simp add: optimize_file_chunks_def final_state_singleton_small expand_with_context_def)

theorem failed_expansion_returns_chunk_unchanged_witness:
  "read_lines env_no_files (file_path small_chunk) = None
   \<and> end_line small_chunk - start_line small_chunk + 1 < MIN_CHUNK_SIZE default_config
   \<and> expand_with_context default_config env_no_files small_chunk = small_chunk
   \<and> optimize_file_chunks default_config env_no_files [small_chunk] = [small_chunk]
   \<and> ''expanded_context'' \<notin> semantic_labels small_chunk"
proof -
  have h: "read_lines env_no_files (file_path small_chunk) = None"
    by (simp add: env_no_files_def)
  have sz: "end_line small_chunk - start_line small_chunk + 1 < MIN_CHUNK_SIZE default_config"
    by (simp add: small_chunk_def example_chunk_def TypeScriptChunk_def default_config_def)
  have lab: "''expanded_context'' \<notin> semantic_labels small_chunk"
    by (simp add: small_chunk_def example_chunk_def TypeScriptChunk_def)
  from failed_expansion_returns_chunk_unchanged[OF h, of default_config] h sz lab
  show ?thesis by simp
qed

theorem optimizer_accounts_each_index_once_witness:
  "list_all2 (built_from default_config env_no_files [getX_chunk, setX_chunk])
     (optimize_file_chunks default_config env_no_files [getX_chunk, setX_chunk])
     (output_sources default_config env_no_files [getX_chunk, setX_chunk])
   \<and> output_sources default_config env_no_files [getX_chunk, setX_chunk] = [{0, 1}]
   \<and> length (filter (\<lambda>s. 1 \<in> s)
        (output_sources default_config env_no_files [getX_chunk, setX_chunk])) = 1"
proof -
  have "output_sources default_config env_no_files [getX_chunk, setX_chunk] = [{0, 1}]"
    by code_simp
  with optimizer_accounts_each_index_once
         [of default_config env_no_files "[getX_chunk, setX_chunk]" 1]
  show ?thesis by simp
qed

section \<open>Merging two chunks\<close>

text \<open>
  Claim C3. For every merge of two chunks, each relationship set of the merged chunk
  (calls, extends, implements, uses\_types, the two API-usage sets) is the union of the
  inputs' sets, the labels are the union plus the merge marker, and each of the two
  flags is the disjunction of the inputs' flags.
\<close>

theorem merge_unions_relationships:
  "calls (merge_chunks w a b) = calls a \<union> calls b
   \<and> extends (merge_chunks w a b) = extends a \<union> extends b
   \<and> implements (merge_chunks w a b) = implements a \<union> implements b
   \<and> uses_types (merge_chunks w a b) = uses_types a \<union> uses_types b
   \<and> semantic_labels (merge_chunks w a b)
        = insert ''merged_chunk'' (semantic_labels a \<union> semantic_labels b)
   \<and> webxr_api_usage (merge_chunks w a b) = webxr_api_usage a \<union> webxr_api_usage b
   \<and> three_js_usage (merge_chunks w a b) = three_js_usage a \<union> three_js_usage b
   \<and> ecs_component (merge_chunks w a b) = (ecs_component a \<or> ecs_component b)
   \<and> ecs_system (merge_chunks w a b) = (ecs_system a \<or> ecs_system b)"
  by (auto simp: merge_chunks_def Let_def)

theorem merge_unions_relationships_witness:
  "extends (merge_chunks env_no_files rich_getter rich_setter) = {''Base'', ''Other''}
   \<and> calls (merge_chunks env_no_files rich_getter rich_setter) = {''read'', ''write''}
   \<and> implements (merge_chunks env_no_files rich_getter rich_setter) = {''Settable''}
   \<and> ecs_component (merge_chunks env_no_files rich_getter rich_setter)
   \<and> \<not> ecs_system (merge_chunks env_no_files rich_getter rich_setter)"
  using merge_unions_relationships[of env_no_files rich_getter rich_setter]
  by (auto simp: rich_getter_def rich_setter_def getX_chunk_def setX_chunk_def
        example_chunk_def TypeScriptChunk_def)

text \<open>The range of a merged chunk: it starts where the earlier chunk starts and ends
  where the chunk that starts later ends.\<close>

lemma merge_range:
  "start_line (merge_chunks w a b) = min (start_line a) (start_line b)
   \<and> end_line (merge_chunks w a b)
       = (if start_line a < start_line b then end_line b else end_line a)"
  by (auto simp: merge_chunks_def Let_def TypeScriptChunk_def)

text \<open>
  Claim C4, at a failing input. The class \<open>Foo\<close> on lines 1 to 10 and the class
  \<open>FooInner\<close> nested in it on lines 3 to 5 are judged eligible and merged; the merged
  chunk ends at line 5, the end of the nested chunk, while the larger of the two ends is
  10. The optimizer's output for the two chunks is one chunk covering lines 1 to 5.
\<close>

theorem merge_of_nested_chunks_loses_the_end:
  "should_merge default_config lower outer_class inner_class
   \<and> end_line (merge_chunks env_no_files outer_class inner_class) = 5
   \<and> max (end_line outer_class) (end_line inner_class) = 10
   \<and> map (\<lambda>c. (start_line c, end_line c))
        (optimize_file_chunks default_config env_no_files [outer_class, inner_class]) = [(1, 5)]"
  by code_simp

section \<open>Chunks already within the size band\<close>

lemma scan_step_in_band:
  assumes "in_band cfg (chunks ! pos st)" "pos st \<notin> consumed st"
  shows "scan_step cfg w chunks st =
           st\<lparr>optimized := optimized st @ [chunks ! pos st],
              consumed := insert (pos st) (consumed st),
              pos := pos st + 1,
              sources := sources st @ [{pos st}]\<rparr>"
  using assms by (simp add: scan_step_def Let_def in_band_def)

lemma scan_in_band:
  "\<forall>c \<in> set chunks. in_band cfg c \<Longrightarrow> optimized st = take (pos st) chunks
   \<Longrightarrow> consumed st = {..<pos st} \<Longrightarrow> pos st \<le> length chunks
   \<Longrightarrow> optimized (scan cfg w chunks st) = chunks"
proof (induction cfg w chunks st rule: scan.induct)
  case (1 cfg w chunks st)
  show ?case
  proof (cases "pos st < length chunks")
    case True
    have ib: "in_band cfg (chunks ! pos st)" using True "1.prems"(1) by simp
    have nc: "pos st \<notin> consumed st" using "1.prems"(3) by simp
    note step = scan_step_in_band[OF ib nc, of w]
    have "optimized (scan cfg w chunks (scan_step cfg w chunks st)) = chunks"
    proof (rule "1.IH"[OF True "1.prems"(1)])
      show "optimized (scan_step cfg w chunks st) = take (pos (scan_step cfg w chunks st)) chunks"
        using True "1.prems"(2) by (simp add: step take_Suc_conv_app_nth)
      show "consumed (scan_step cfg w chunks st) = {..<pos (scan_step cfg w chunks st)}"
        by (simp add: step "1.prems"(3) lessThan_Suc)
      show "pos (scan_step cfg w chunks st) \<le> length chunks"
        using True by (simp add: step)
    qed
    then show ?thesis using True by (subst scan.simps) simp
  next
    case False
    then show ?thesis using 1 by (subst scan.simps) simp
  qed
qed

lemma optimize_file_chunks_in_band:
  "\<forall>c \<in> set chunks. in_band cfg c \<Longrightarrow> optimize_file_chunks cfg w chunks = chunks"
  unfolding optimize_file_chunks_def final_state_def
  by (rule scan_in_band) (simp_all add: initial_state_def)

lemma first_seen_snoc:
  "first_seen (xs @ [x]) = (if x \<in> set xs then first_seen xs else first_seen xs @ [x])"
  by (simp add: first_seen_def)

lemma set_first_seen: "set (first_seen xs) = set xs"
  by (simp add: first_seen_def)

lemma distinct_first_seen: "distinct (first_seen xs)"
  by (simp add: first_seen_def)

lemma first_seen_const:
  "xs \<noteq> [] \<Longrightarrow> set xs \<subseteq> {p} \<Longrightarrow> first_seen xs = [p]"
proof (induction xs rule: rev_induct)
  case Nil
  then show ?case by simp
next
  case (snoc x xs)
  have xp: "x = p" and sub: "set xs \<subseteq> {p}" using snoc.prems(2) by auto
  show ?case
  proof (cases "xs = []")
    case True
    then show ?thesis by (simp add: first_seen_def xp)
  next
    case False
    then obtain y where "y \<in> set xs" by (cases xs) auto
    then have "x \<in> set xs" using sub xp by auto
    moreover have "first_seen xs = [p]" by (rule snoc.IH[OF False sub])
    ultimately show ?thesis by (simp add: first_seen_snoc)
  qed
qed

lemma group_by_file_snoc: "group_by_file (xs @ [x]) = add_chunk x (group_by_file xs)"
  by (simp add: group_by_file_def)

lemma group_by_file_eq:
  "group_by_file chunks =
     map (\<lambda>f. (f, filter (\<lambda>c. file_path c = f) chunks)) (first_seen (map file_path chunks))"
proof (induction chunks rule: rev_induct)
  case Nil
  show ?case by (simp add: group_by_file_def first_seen_def)
next
  case (snoc x xs)
  show ?case
    by (auto simp: group_by_file_snoc snoc.IH add_chunk_def first_seen_snoc set_first_seen
          image_image Let_def filter_empty_conv image_iff)
qed

lemma mset_groups:
  "distinct fs \<Longrightarrow>
   mset (concat (map (\<lambda>f. sort_key g (filter (\<lambda>c. key c = f) xs)) fs))
     = filter_mset (\<lambda>c. key c \<in> set fs) (mset xs)"
proof (induction fs)
  case Nil
  show ?case by simp
next
  case (Cons f fs)
  have "filter_mset (\<lambda>c. key c = f) (mset xs) + filter_mset (\<lambda>c. key c \<in> set fs) (mset xs)
          = filter_mset (\<lambda>c. key c \<in> set (f # fs)) (mset xs)"
    using Cons.prems by (induction xs) auto
  with Cons show ?case by simp
qed

text \<open>
  Claim C5, as amended. For every chunk list in which every chunk's size lies within
  \<open>[MIN_CHUNK_SIZE, MAX_CHUNK_SIZE]\<close>, \<open>optimize_chunks\<close> returns the same chunks,
  unmodified, regrouped: the files in the order of their first chunk, and within a file
  the chunks in ascending \<open>start_line\<close> order (chunks with equal start lines keep their
  order). In particular a list of chunks of one file that is already in ascending
  start-line order is returned identically.
\<close>

theorem optimize_chunks_in_band:
  assumes "\<forall>c \<in> set chunks. MIN_CHUNK_SIZE cfg \<le> end_line c - start_line c + 1
                     \<and> end_line c - start_line c + 1 \<le> MAX_CHUNK_SIZE cfg"
  shows "optimize_chunks cfg w chunks =
           concat (map (\<lambda>f. sort_key start_line (filter (\<lambda>c. file_path c = f) chunks))
                       (first_seen (map file_path chunks)))
         \<and> mset (optimize_chunks cfg w chunks) = mset chunks
         \<and> ((\<forall>c \<in> set chunks. file_path c = p) \<and> sorted (map start_line chunks)
              \<longrightarrow> optimize_chunks cfg w chunks = chunks)"
proof -
  let ?arr = "concat (map (\<lambda>f. sort_key start_line (filter (\<lambda>c. file_path c = f) chunks))
                       (first_seen (map file_path chunks)))"
  have band: "\<forall>c \<in> set chunks. in_band cfg c" using assms by (simp add: in_band_def)
  have each: "optimize_file_chunks cfg w (sort_key start_line (filter (\<lambda>c. file_path c = f) chunks))
                = sort_key start_line (filter (\<lambda>c. file_path c = f) chunks)" for f
    by (rule optimize_file_chunks_in_band) (use band in auto)
  have eq: "optimize_chunks cfg w chunks = ?arr"
    by (cases "chunks = []")
       (simp_all add: optimize_chunks_def group_by_file_eq first_seen_def each comp_def)
  have "filter (\<lambda>c. file_path c \<in> file_path ` set chunks) chunks = chunks"
    by (simp add: filter_id_conv)
  then have "filter_mset (\<lambda>c. file_path c \<in> file_path ` set chunks) (mset chunks) = mset chunks"
    by (simp flip: mset_filter)
  then have ms: "mset ?arr = mset chunks"
    by (simp add: mset_groups[OF distinct_first_seen] set_first_seen)
  have idn: "?arr = chunks" if one: "\<forall>c \<in> set chunks. file_path c = p"
    and srt: "sorted (map start_line chunks)"
  proof (cases "chunks = []")
    case True
    then show ?thesis by (simp add: first_seen_def)
  next
    case False
    have "first_seen (map file_path chunks) = [p]"
      using False one by (intro first_seen_const) auto
    moreover have "filter (\<lambda>c. file_path c = p) chunks = chunks" using one by simp
    ultimately show ?thesis using srt by (simp add: sort_key_id_if_sorted)
  qed
  from eq ms idn show ?thesis by simp
qed

theorem optimize_chunks_in_band_witness:
  "optimize_chunks default_config env_no_files [early_chunk, late_chunk]
     = [early_chunk, late_chunk]"
proof -
  have band: "\<forall>c \<in> set [early_chunk, late_chunk].
                MIN_CHUNK_SIZE default_config \<le> end_line c - start_line c + 1
                \<and> end_line c - start_line c + 1 \<le> MAX_CHUNK_SIZE default_config"
    by (simp add: early_chunk_def late_chunk_def example_chunk_def TypeScriptChunk_def
          default_config_def)
  have one: "\<forall>c \<in> set [early_chunk, late_chunk]. file_path c = ''src/a.ts''"
    by (simp add: early_chunk_def late_chunk_def example_chunk_def TypeScriptChunk_def)
  have srt: "sorted (map start_line [early_chunk, late_chunk])"
    by (simp add: early_chunk_def late_chunk_def example_chunk_def TypeScriptChunk_def)
  from optimize_chunks_in_band[OF band, of env_no_files "''src/a.ts''"] one srt
  show ?thesis by blast
qed

text \<open>
  Claim C5 as stated fails: two chunks of one file, both within the band, given with
  the later one first, come back in the other order.
\<close>

theorem optimize_chunks_reorders_in_band_list:
  "in_band default_config late_chunk \<and> in_band default_config early_chunk
   \<and> optimize_chunks default_config env_no_files [late_chunk, early_chunk]
        = [early_chunk, late_chunk]
   \<and> optimize_chunks default_config env_no_files [late_chunk, early_chunk]
        \<noteq> [late_chunk, early_chunk]"
  by code_simp

section \<open>Merge eligibility\<close>

text \<open>A name that starts with \<open>get\<close> or \<open>set\<close> starts with no lifecycle prefix.\<close>

lemma getset_not_lifecycle:
  assumes "startswith n ''get'' \<or> startswith n ''set''"
  shows "\<not> list_ex (\<lambda>p. startswith n p \<and> startswith m p) lifecycle_prefixes"
  using assms by (cases n) (auto simp: startswith_def lifecycle_prefixes_def)

text \<open>\<open>_are_related\<close> in closed form, for any lower-casing function.\<close>

lemma are_related_eq:
  "are_related lower_fn name1 name2 =
     (spec_getter_setter (lower_fn name1) (lower_fn name2)
      \<or> spec_lifecycle (lower_fn name1) (lower_fn name2)
      \<or> (\<not> getset_shape (lower_fn name1) (lower_fn name2)
          \<and> shared_base (lower_fn name1) (lower_fn name2)))"
proof (cases "getset_shape (lower_fn name1) (lower_fn name2)")
  case True
  then have "startswith (lower_fn name1) ''get'' \<or> startswith (lower_fn name1) ''set''"
    by (auto simp: getset_shape_def)
  then have "\<not> spec_lifecycle (lower_fn name1) (lower_fn name2)"
    unfolding spec_lifecycle_def by (rule getset_not_lifecycle)
  with True show ?thesis
    by (auto simp: are_related_def spec_getter_setter_def getset_shape_def Let_def)
next
  case False
  then show ?thesis
    by (auto simp: are_related_def spec_getter_setter_def spec_lifecycle_def
          getset_shape_def shared_base_def Let_def)
qed

text \<open>The relatedness test follows the lower-casing it is given: two names that
  \<open>str.lower\<close> maps to \<open>\<auml>nderung1\<close> and \<open>\<auml>nderung2\<close> (the first letter is the
  character 0xE4), such as two names that differ in the case of a non-ASCII first
  letter, are related by their shared base name.\<close>

lemma are_related_follows_lower_fn:
  assumes "lower_fn n1 = CHR 0xE4 # ''nderung1''" "lower_fn n2 = CHR 0xE4 # ''nderung2''"
  shows "are_related lower_fn n1 n2"
proof -
  have "\<not> getset_shape (CHR 0xE4 # ''nderung1'') (CHR 0xE4 # ''nderung2'')
        \<and> shared_base (CHR 0xE4 # ''nderung1'') (CHR 0xE4 # ''nderung2'')"
    by code_simp
  then show ?thesis by (simp add: are_related_eq assms)
qed




section \<open>Heritage resolution\<close>

text \<open>Pattern detection and the implements loop leave \<open>extends\<close> alone; the extends loop
  adds the contribution of each child.\<close>

lemma extends_detect_ecs_patterns: "extends (detect_ecs_patterns lower_fn c) = extends c"
  by (simp add: detect_ecs_patterns_def Let_def)

lemma extends_fold_webxr:
  "extends (fold (\<lambda>api ch. if str_in api (content ch)
                    then ch\<lparr>webxr_api_usage := insert api (webxr_api_usage ch),
                            semantic_labels := insert l (semantic_labels ch)\<rparr>
                    else ch) xs c) = extends c"
  by (induction xs arbitrary: c) simp_all

lemma extends_fold_threejs:
  "extends (fold (\<lambda>pattern ch. if str_in pattern (content ch)
                    then ch\<lparr>three_js_usage := insert pattern (three_js_usage ch),
                            semantic_labels := insert l (semantic_labels ch)\<rparr>
                    else ch) xs c) = extends c"
  by (induction xs arbitrary: c) simp_all

lemma extends_detect_webxr_patterns: "extends (detect_webxr_patterns c) = extends c"
  by (simp add: detect_webxr_patterns_def Let_def extends_fold_webxr extends_fold_threejs)

lemma extends_add_extends:
  "extends (add_extends src child c) = extends c \<union> extends_contribution src child"
  by (auto simp: add_extends_def extends_contribution_def split: option.splits)

lemma extends_fold_add_extends:
  "extends (fold (add_extends src) cs c)
     = extends c \<union> (\<Union>child \<in> set cs. extends_contribution src child)"
  by (induction cs arbitrary: c) (auto simp: extends_add_extends)

lemma extends_fold_clauses:
  "extends (fold (\<lambda>extends_node. fold (add_extends src) (children extends_node)) es c)
     = extends c \<union> (\<Union>e \<in> set es. \<Union>child \<in> set (children e). extends_contribution src child)"
  by (induction es arbitrary: c) (auto simp: extends_fold_add_extends)

lemma extends_fold_add_implements:
  "extends (fold (add_implements src) ts c) = extends c"
  by (induction ts arbitrary: c) (simp_all add: add_implements_def)

lemma extends_fold_implements_clauses:
  "extends (fold (\<lambda>implements_node. fold (add_implements src) (g implements_node)) is c)
     = extends c"
  by (induction "is" arbitrary: c) (simp_all add: extends_fold_add_implements)

lemma extends_fold_heritage:
  "extends (fold (\<lambda>heritage chunk.
              fold (\<lambda>implements_node. fold (add_implements src)
                      (find_nodes_by_type implements_node ''type_identifier''))
                (find_nodes_by_type heritage ''implements_clause'')
                (fold (\<lambda>extends_node. fold (add_extends src) (children extends_node))
                   (find_nodes_by_type heritage ''extends_clause'') chunk)) hs c)
     = extends c \<union> (\<Union>h \<in> set hs. \<Union>e \<in> set (find_nodes_by_type h ''extends_clause'').
                        \<Union>child \<in> set (children e). extends_contribution src child)"
  by (induction hs arbitrary: c)
     (auto simp: extends_fold_implements_clauses extends_fold_clauses)

lemma extends_parse_class:
  "extends (parse_class lower_fn class_node src path lang imps) =
     (\<Union>h \<in> set (find_nodes_by_type class_node ''class_heritage'').
      \<Union>e \<in> set (find_nodes_by_type h ''extends_clause'').
      \<Union>child \<in> set (children e). extends_contribution src child)"
  by (simp add: parse_class_def Let_def extends_detect_webxr_patterns
        extends_detect_ecs_patterns extends_fold_heritage TypeScriptChunk_def)

text \<open>
  Claim C7. For every class chunk, \<open>extends\<close> is the union, over the children of the
  extends clauses found in the class heritage, of: the child's own text when it is an
  identifier or type identifier, the text of the callee when it is a call expression,
  and the full text when it is a member expression. For the class
  \<open>class Foo extends createSystem(Base) {}\<close> this gives \<open>{createSystem}\<close>, and for
  \<open>class Foo extends Three.Group {}\<close> it gives \<open>{Three.Group}\<close>. Lower-casing plays no
  part: the statement holds for every \<open>lower_fn\<close>.
\<close>

theorem class_extends_resolution:
  "extends (parse_class lower_fn class_node src path lang imps) =
     (\<Union>heritage \<in> set (find_nodes_by_type class_node ''class_heritage'').
      \<Union>extends_node \<in> set (find_nodes_by_type heritage ''extends_clause'').
      \<Union>child \<in> set (children extends_node).
        (if ntype child = ''identifier'' \<or> ntype child = ''type_identifier''
           then {get_node_text (Some child) src}
         else if ntype child = ''call_expression''
           then (case child_by_field_name child ''function'' of
                   Some callee \<Rightarrow> {get_node_text (Some callee) src}
                 | None \<Rightarrow> {})
         else if ntype child = ''member_expression''
           then {get_node_text (Some child) src}
         else {}))
   \<and> extends (parse_class lower_fn call_tree call_source ''src/a.ts'' ''typescript'' [])
       = {''createSystem''}
   \<and> extends (parse_class lower_fn member_tree member_source ''src/a.ts'' ''typescript'' [])
       = {''Three.Group''}"
proof -
  have general: "extends (parse_class lower_fn class_node src path lang imps) =
     (\<Union>heritage \<in> set (find_nodes_by_type class_node ''class_heritage'').
      \<Union>extends_node \<in> set (find_nodes_by_type heritage ''extends_clause'').
      \<Union>child \<in> set (children extends_node).
        (if ntype child = ''identifier'' \<or> ntype child = ''type_identifier''
           then {get_node_text (Some child) src}
         else if ntype child = ''call_expression''
           then (case child_by_field_name child ''function'' of
                   Some callee \<Rightarrow> {get_node_text (Some callee) src}
                 | None \<Rightarrow> {})
         else if ntype child = ''member_expression''
           then {get_node_text (Some child) src}
         else {}))"
    unfolding extends_parse_class extends_contribution_def ..
  have "(\<Union>h \<in> set (find_nodes_by_type call_tree ''class_heritage'').
         \<Union>e \<in> set (find_nodes_by_type h ''extends_clause'').
         \<Union>child \<in> set (children e). extends_contribution call_source child)
          = {''createSystem''}"
    by code_simp
  then have call: "extends (parse_class lower_fn call_tree call_source
                     ''src/a.ts'' ''typescript'' []) = {''createSystem''}"
    by (simp only: extends_parse_class)
  have "(\<Union>h \<in> set (find_nodes_by_type member_tree ''class_heritage'').
         \<Union>e \<in> set (find_nodes_by_type h ''extends_clause'').
         \<Union>child \<in> set (children e). extends_contribution member_source child)
          = {''Three.Group''}"
    by code_simp
  then have member: "extends (parse_class lower_fn member_tree member_source
                       ''src/a.ts'' ''typescript'' []) = {''Three.Group''}"
    by (simp only: extends_parse_class)
  from general call member show ?thesis by blast
qed

theorem class_extends_resolution_witness:
  "extends (parse_class lower plain_tree plain_source ''src/a.ts'' ''typescript'' []) = {''Bar''}"
proof -
  have "(\<Union>heritage \<in> set (find_nodes_by_type plain_tree ''class_heritage'').
      \<Union>extends_node \<in> set (find_nodes_by_type heritage ''extends_clause'').
      \<Union>child \<in> set (children extends_node).
        (if ntype child = ''identifier'' \<or> ntype child = ''type_identifier''
           then {get_node_text (Some child) plain_source}
         else if ntype child = ''call_expression''
           then (case child_by_field_name child ''function'' of
                   Some callee \<Rightarrow> {get_node_text (Some callee) plain_source}
                 | None \<Rightarrow> {})
         else if ntype child = ''member_expression''
           then {get_node_text (Some child) plain_source}
         else {})) = {''Bar''}"
    by code_simp
  with class_extends_resolution
         [of lower plain_tree plain_source "''src/a.ts''" "''typescript''" "[]"]
  show ?thesis by simp
qed

section \<open>ECS pattern detection\<close>

text \<open>
  Claim C8, as amended. For every chunk passed to ECS pattern detection whose name
  contains \<open>transform\<close> (case-insensitive) the detector adds the label
  \<open>transform_component\<close>; for every chunk whose name contains \<open>physics\<close> and not
  \<open>transform\<close> it adds the label \<open>physics_component\<close>. The name sets no flag: after
  detection each ECS flag is its value before, or true by a phrase of the content (or,
  for \<open>ecs_system\<close>, by \<open>createSystem\<close> among the extended names). The statement holds for
  every lower-casing function \<open>lower_fn\<close> in the place of \<open>str.lower\<close>.
\<close>

theorem name_heuristics_add_labels_only:
  "(str_in ''transform'' (lower_fn (name c))
      \<longrightarrow> ''transform_component'' \<in> semantic_labels (detect_ecs_patterns lower_fn c))
   \<and> (str_in ''physics'' (lower_fn (name c)) \<and> \<not> str_in ''transform'' (lower_fn (name c))
      \<longrightarrow> ''physics_component'' \<in> semantic_labels (detect_ecs_patterns lower_fn c))
   \<and> ecs_component (detect_ecs_patterns lower_fn c)
       = (ecs_component c \<or> str_in ''implements component'' (lower_fn (content c))
          \<or> str_in ''extends componentbase'' (lower_fn (content c)))
   \<and> ecs_system (detect_ecs_patterns lower_fn c)
       = (ecs_system c \<or> str_in ''extends system'' (lower_fn (content c))
          \<or> str_in ''implements isystem'' (lower_fn (content c))
          \<or> ''createSystem'' \<in> extends c)"
  by (simp add: detect_ecs_patterns_def Let_def)

theorem name_heuristics_add_labels_only_witness:
  "str_in ''transform'' (lower (name transform_class))
   \<and> ''transform_component'' \<in> semantic_labels (detect_ecs_patterns lower transform_class)
   \<and> str_in ''physics'' (lower (name physics_class))
   \<and> \<not> str_in ''transform'' (lower (name physics_class))
   \<and> ''physics_component'' \<in> semantic_labels (detect_ecs_patterns lower physics_class)"
proof -
  have t: "str_in ''transform'' (lower (name transform_class))" by code_simp
  have p: "str_in ''physics'' (lower (name physics_class))
           \<and> \<not> str_in ''transform'' (lower (name physics_class))" by code_simp
  from t p name_heuristics_add_labels_only[of lower transform_class]
    name_heuristics_add_labels_only[of lower physics_class]
  show ?thesis by blast
qed

text \<open>
  Claim C8 as stated fails: a class named \<open>Transform\<close> with no ECS phrase in its content
  leaves detection with both flags false.
\<close>

theorem transform_name_sets_no_flag:
  "str_in ''transform'' (lower (name transform_class))
   \<and> \<not> ecs_component (detect_ecs_patterns lower transform_class)
   \<and> \<not> ecs_system (detect_ecs_patterns lower transform_class)"
  by code_simp

section \<open>Metadata of the vector store\<close>

text \<open>
  Claim C9, at a failing input. For a class whose base expression is a name of 1000
  characters, the metadata stores that name under \<open>extends\<close> in full, while the same
  name as the only call is dropped by the length test of the \<open>calls\<close> entry: the entries
  for \<open>extends\<close>, \<open>implements\<close> and the API usage have no such test. This holds whatever
  the path splitting \<open>parts\<close> is.
\<close>

theorem long_extends_is_stored_uncapped:
  "create_metadata parts sorted_list_of_set long_extends_class None ''extends''
     = Some (MStr long_name)
   \<and> length long_name = 1000
   \<and> create_metadata parts sorted_list_of_set long_extends_class None ''calls'' = None"
  by (simp add: create_metadata_def Let_def long_extends_class_def example_chunk_def
        TypeScriptChunk_def truthy_def long_name_def)

end
